theory Spec2Isabelle
  imports Complex_Main
begin

section \<open>Rider telemetry: data model of \<open>src/src/App.js\<close>\<close>

text \<open>
  The component \<open>App\<close> polls a remote device every 0.5 s, normalises each JSON sample,
  keeps a bounded history and drives the crash countdown. JavaScript numbers are modelled
  by the real numbers they denote; the one place where a number is not a real (the \<open>NaN\<close>
  that \<open>undefined ** 2\<close> produces) is modelled by \<open>None\<close>.

  \<open>raw_sample\<close> is the well-typed sample: every field is a number or is missing
  (\<open>undefined\<close>, modelled by \<open>None\<close>). The handler on arbitrary JSON, where a field may also be
  \<open>null\<close>, a boolean, a string, an array or an object and line 48 may throw, is modelled
  further down (\<open>normalize_js\<close>); on well-typed samples the two agree.
\<close>

record raw_sample =
  ax :: "real option"
  ay :: "real option"
  az :: "real option"
  gps_spd :: "real option"
  mpu_spd :: "real option"
  lat :: "real option"
  lon :: "real option"
  tilt :: "real option"
  posture :: "string option"

datatype ride_mode = Idle | Walking | Scooter | Motorcycle

text \<open>
  \<open>newData = { ...data, gForce, spd: speed, ride_mode: rideMode, timestamp: Date.now() }\<close>:
  the spread copy of the raw sample and the four derived fields. The type of the copied
  sample is a parameter: \<open>raw_sample\<close> for well-typed samples, \<open>json_object\<close> for
  arbitrary JSON.
\<close>

record 'r reading =
  raw :: 'r
  gForce :: "real option"
  spd :: real
  ride_mode :: ride_mode
  timestamp :: nat

subsection \<open>Normalisation (lines 36--63)\<close>

text \<open>
  \<open>Math.sqrt(data.ax ** 2 + data.ay ** 2 + data.az ** 2) / 9.8\<close>. A missing component
  makes the sum \<open>NaN\<close>.
\<close>

definition gForce_of :: "raw_sample \<Rightarrow> real option" where
  "gForce_of d =
     (case ax d of None \<Rightarrow> None | Some x \<Rightarrow>
      (case ay d of None \<Rightarrow> None | Some y \<Rightarrow>
       (case az d of None \<Rightarrow> None | Some z \<Rightarrow>
          Some (sqrt (x ^ 2 + y ^ 2 + z ^ 2) / (98 / 10)))))"

text \<open>
  \<open>if (data.gps_spd && data.gps_spd > 0) rawSpeed = data.gps_spd;
  else if (data.mpu_spd && data.mpu_spd > 0) rawSpeed = data.mpu_spd;\<close>
\<close>

definition rawSpeed :: "raw_sample \<Rightarrow> real" where
  "rawSpeed d =
     (case gps_spd d of
        Some g \<Rightarrow> if g > 0 then g
                  else (case mpu_spd d of Some m \<Rightarrow> if m > 0 then m else 0 | None \<Rightarrow> 0)
      | None \<Rightarrow> (case mpu_spd d of Some m \<Rightarrow> if m > 0 then m else 0 | None \<Rightarrow> 0))"

text \<open>
  \<open>parseFloat(x.toFixed(2))\<close>: \<open>toFixed\<close> takes the integer \<open>n\<close> with \<open>n / 100\<close> nearest to
  \<open>x\<close>, the larger one on a tie, and works on the absolute value of a negative \<open>x\<close>.
\<close>

definition toFixed2 :: "real \<Rightarrow> real" where
  "toFixed2 x =
     (if x < 0 then - (of_int \<lfloor>(- x) * 100 + 1 / 2\<rfloor> / 100)
      else of_int \<lfloor>x * 100 + 1 / 2\<rfloor> / 100)"

text \<open>\<open>const speed = rawSpeed < 0.8 ? 0 : parseFloat(rawSpeed.toFixed(2));\<close>\<close>

definition speed_of :: "real \<Rightarrow> real" where
  "speed_of r = (if r < 8 / 10 then 0 else toFixed2 r)"

text \<open>The \<open>if\<close> chain of lines 51--55.\<close>

definition rideMode :: "real \<Rightarrow> ride_mode" where
  "rideMode speed =
     (if speed < 17 / 10 then Idle
      else if speed < 55 / 10 then Walking
      else if speed < 96 / 10 then Scooter
      else Motorcycle)"

text \<open>
  The body of the \<open>then\<close> handler up to the construction of \<open>newData\<close>. The argument is the
  parsed JSON body, \<open>None\<close> when it is \<open>null\<close> (or another falsy value); the result \<open>None\<close>
  is the early \<open>return\<close> of line 36. \<open>now\<close> is the value of \<open>Date.now()\<close>.
\<close>

definition normalize :: "raw_sample option \<Rightarrow> nat \<Rightarrow> raw_sample reading option" where
  "normalize data now =
     (case data of
        None \<Rightarrow> None
      | Some d \<Rightarrow>
          if ax d = None then None
          else Some \<lparr> raw = d, gForce = gForce_of d, spd = speed_of (rawSpeed d),
                      ride_mode = rideMode (speed_of (rawSpeed d)), timestamp = now \<rparr>)"

subsection \<open>History (line 77)\<close>

text \<open>
  \<open>prev.slice(-1000)\<close> is the last 1000 elements of \<open>prev\<close>, all of it when it is shorter.
\<close>

definition slice_last :: "nat \<Rightarrow> 'a list \<Rightarrow> 'a list" where
  "slice_last k xs = drop (length xs - k) xs"

text \<open>\<open>setHistory((prev) => [...prev.slice(-1000), newData])\<close>\<close>

definition setHistory :: "'a list \<Rightarrow> 'a \<Rightarrow> 'a list" where
  "setHistory prev newData = slice_last 1000 prev @ [newData]"

subsection \<open>Component state, timers and the crash countdown (lines 20--25, 89--114)\<close>

text \<open>
  The state of the component: the \<open>useState\<close> cells, the \<open>countdownRef\<close> cell (\<open>None\<close> is
  \<open>null\<close>), and the part of the browser the countdown touches: the interval timers that
  are armed (\<open>setInterval\<close> hands out fresh identifiers, \<open>clearInterval\<close> disarms one), and
  the targets assigned to \<open>window.location.href\<close>, oldest first.
\<close>

record 'r app_state =
  telemetry :: "'r reading option"
  crashDetected :: bool
  countdown :: int
  history :: "'r reading list"
  countdownRef :: "nat option"
  timers :: "nat list"
  next_timer :: nat
  dialed :: "string list"

definition EMERGENCY_NUMBER :: string where
  "EMERGENCY_NUMBER = ''+911234567890''"

definition initial_state :: "'r app_state" where
  "initial_state =
     \<lparr> telemetry = None, crashDetected = False, countdown = 0, history = [],
       countdownRef = None, timers = [], next_timer = 0, dialed = [] \<rparr>"

text \<open>\<open>clearInterval(id)\<close>; a \<open>null\<close> or unknown identifier is ignored by the browser.\<close>

definition clearInterval :: "nat option \<Rightarrow> 'r app_state \<Rightarrow> 'r app_state" where
  "clearInterval r s =
     (case r of None \<Rightarrow> s | Some i \<Rightarrow> s\<lparr> timers := removeAll i (timers s) \<rparr>)"

text \<open>\<open>window.location.href = `tel:${EMERGENCY_NUMBER}`\<close>\<close>

definition callEmergency :: "'r app_state \<Rightarrow> 'r app_state" where
  "callEmergency s = s\<lparr> dialed := dialed s @ [''tel:'' @ EMERGENCY_NUMBER] \<rparr>"

definition cancelEmergency :: "'r app_state \<Rightarrow> 'r app_state" where
  "cancelEmergency s =
     (clearInterval (countdownRef s) s)\<lparr> crashDetected := False, countdown := 0 \<rparr>"

text \<open>
  The updater passed to \<open>setCountdown\<close> by the interval callback (lines 95--102). It reads
  \<open>countdownRef.current\<close> when it runs, and runs once for each firing of the timer.
\<close>

definition countdown_updater :: "'r app_state \<Rightarrow> 'r app_state" where
  "countdown_updater s =
     (if countdown s \<le> 1
      then (callEmergency (clearInterval (countdownRef s) s))\<lparr> countdown := 0 \<rparr>
      else s\<lparr> countdown := countdown s - 1 \<rparr>)"

text \<open>One firing of the interval timer \<open>tid\<close>; a timer that is not armed does not fire.\<close>

definition tick :: "nat \<Rightarrow> 'r app_state \<Rightarrow> 'r app_state" where
  "tick tid s = (if tid \<in> set (timers s) then countdown_updater s else s)"

text \<open>
  \<open>triggerCrashSequence\<close>. The function is a closure of one render: its guard reads the
  \<open>crashDetected\<close> constant of the render that created it, which is the first argument
  here. The \<open>gForce\<close> argument is not used by the body.
\<close>

definition triggerCrashSequence :: "bool \<Rightarrow> real \<Rightarrow> 'r app_state \<Rightarrow> 'r app_state" where
  "triggerCrashSequence closure_crashDetected g s =
     (if closure_crashDetected then s
      else s\<lparr> crashDetected := True, countdown := 30,
               countdownRef := Some (next_timer s),
               timers := timers s @ [next_timer s],
               next_timer := next_timer s + 1 \<rparr>)"

text \<open>
  The polling effect is registered with the dependency list \<open>[]\<close>, so it runs once, after
  the first render, and its callback keeps the \<open>triggerCrashSequence\<close> of that render;
  there \<open>crashDetected\<close> is the initial value of its \<open>useState\<close> cell.
\<close>

definition poll_closure_crashDetected :: bool where
  "poll_closure_crashDetected = crashDetected (initial_state :: raw_sample app_state)"

text \<open>
  Lines 76--80: store the reading, append it to the history, check for a crash. The
  comparison \<open>gForce > 3.5\<close> is false for \<open>NaN\<close>. The position fallback of lines 66--74
  is a detached callback that later assigns \<open>lat\<close> and \<open>lon\<close> of the reading and nothing
  else; it is left out.
\<close>

definition process_reading :: "'r reading \<Rightarrow> 'r app_state \<Rightarrow> 'r app_state" where
  "process_reading newData s =
     (let s1 = s\<lparr> telemetry := Some newData,
                  history := setHistory (history s) newData \<rparr>
      in case gForce newData of
           None \<Rightarrow> s1
         | Some g \<Rightarrow>
             if g > 35 / 10 then triggerCrashSequence poll_closure_crashDetected g s1
             else s1)"

definition onSample ::
  "raw_sample option \<Rightarrow> nat \<Rightarrow> raw_sample app_state \<Rightarrow> raw_sample app_state" where
  "onSample data now s =
     (case normalize data now of None \<Rightarrow> s | Some newData \<Rightarrow> process_reading newData s)"

text \<open>
  What can happen to the component: a sample arrives, an interval timer fires, the user
  presses Cancel, the user presses Call Now (both buttons are wired to \<open>cancelEmergency\<close>
  and \<open>callEmergency\<close> directly).
\<close>

datatype event = Sample "raw_sample option" nat | Tick nat | Cancel | CallNow

fun step :: "raw_sample app_state \<Rightarrow> event \<Rightarrow> raw_sample app_state" where
  "step s (Sample data now) = onSample data now s"
| "step s (Tick tid) = tick tid s"
| "step s Cancel = cancelEmergency s"
| "step s CallNow = callEmergency s"

definition run :: "event list \<Rightarrow> raw_sample app_state" where
  "run es = foldl step initial_state es"

subsection \<open>Arbitrary JSON samples (lines 33--82)\<close>

text \<open>
  The values a field of the parsed body can hold, as far as lines 36--48 can tell them
  apart: whether the field is missing, what \<open>ToBoolean\<close> and \<open>ToNumber\<close> give, and whether
  the value is a number (only numbers have \<open>toFixed\<close>). A string carries the number it
  converts to (\<open>None\<close> is \<open>NaN\<close>): \<open>"12.5"\<close> is \<open>Str ''12.5'' (Some 12.5)\<close>, \<open>"abc"\<close> is
  \<open>Str ''abc'' None\<close>. \<open>Obj\<close> is an array or an object with the number its string form
  converts to: \<open>[5]\<close> is \<open>Obj (Some 5)\<close>, \<open>{}\<close> is \<open>Obj None\<close>. \<open>Opaque\<close> is an array or
  object that cannot be converted to a primitive (its own \<open>toString\<close> is not callable, as
  in \<open>{"toString": 1}\<close>): every numeric use of it throws.
\<close>

datatype jsval =
    Undefined
  | Null
  | Bool bool
  | Num real
  | Str string "real option"
  | Obj "real option"
  | Opaque

text \<open>A parsed JSON object: the value of each key, \<open>Undefined\<close> for a key it does not have.\<close>

type_synonym json_object = "string \<Rightarrow> jsval"

datatype js_error = TypeError

definition ToBoolean :: "jsval \<Rightarrow> bool" where
  "ToBoolean v =
     (case v of Undefined \<Rightarrow> False | Null \<Rightarrow> False | Bool b \<Rightarrow> b | Num x \<Rightarrow> x \<noteq> 0
      | Str s n \<Rightarrow> s \<noteq> [] | Obj n \<Rightarrow> True | Opaque \<Rightarrow> True)"

definition ToNumber :: "jsval \<Rightarrow> js_error + real option" where
  "ToNumber v =
     (case v of Undefined \<Rightarrow> Inr None | Null \<Rightarrow> Inr (Some 0)
      | Bool b \<Rightarrow> Inr (Some (if b then 1 else 0)) | Num x \<Rightarrow> Inr (Some x)
      | Str s n \<Rightarrow> Inr n | Obj n \<Rightarrow> Inr n | Opaque \<Rightarrow> Inl TypeError)"

text \<open>
  \<open>v > c\<close> and \<open>v < c\<close> against a number literal: \<open>v\<close> is converted to a number, and a
  comparison with \<open>NaN\<close> is false.
\<close>

definition js_gt :: "jsval \<Rightarrow> real \<Rightarrow> js_error + bool" where
  "js_gt v c =
     (case ToNumber v of Inl e \<Rightarrow> Inl e | Inr None \<Rightarrow> Inr False | Inr (Some x) \<Rightarrow> Inr (x > c))"

definition js_lt :: "jsval \<Rightarrow> real \<Rightarrow> js_error + bool" where
  "js_lt v c =
     (case ToNumber v of Inl e \<Rightarrow> Inl e | Inr None \<Rightarrow> Inr False | Inr (Some x) \<Rightarrow> Inr (x < c))"

text \<open>Lines 39--40 on arbitrary field values.\<close>

definition gForce_js :: "json_object \<Rightarrow> js_error + real option" where
  "gForce_js d =
     (case ToNumber (d ''ax'') of Inl e \<Rightarrow> Inl e | Inr x \<Rightarrow>
      (case ToNumber (d ''ay'') of Inl e \<Rightarrow> Inl e | Inr y \<Rightarrow>
       (case ToNumber (d ''az'') of Inl e \<Rightarrow> Inl e | Inr z \<Rightarrow>
          Inr (case x of None \<Rightarrow> None | Some a \<Rightarrow>
               (case y of None \<Rightarrow> None | Some b \<Rightarrow>
                (case z of None \<Rightarrow> None | Some c \<Rightarrow>
                   Some (sqrt (a ^ 2 + b ^ 2 + c ^ 2) / (98 / 10))))))))"

text \<open>
  Lines 43--45: \<open>rawSpeed\<close> becomes the field value itself, whatever its kind, when the
  value is truthy and compares greater than 0.
\<close>

definition rawSpeed_js :: "json_object \<Rightarrow> js_error + jsval" where
  "rawSpeed_js d =
     (let mpu = (if ToBoolean (d ''mpu_spd'')
                 then (case js_gt (d ''mpu_spd'') 0 of Inl e \<Rightarrow> Inl e
                       | Inr b \<Rightarrow> Inr (if b then d ''mpu_spd'' else Num 0))
                 else Inr (Num 0))
      in if ToBoolean (d ''gps_spd'')
         then (case js_gt (d ''gps_spd'') 0 of Inl e \<Rightarrow> Inl e
               | Inr b \<Rightarrow> if b then Inr (d ''gps_spd'') else mpu)
         else mpu)"

text \<open>
  Line 48: \<open>rawSpeed < 0.8 ? 0 : parseFloat(rawSpeed.toFixed(2))\<close>. A value that is not a
  number has no \<open>toFixed\<close>, and the call throws a \<open>TypeError\<close>.
\<close>

definition speed_js :: "jsval \<Rightarrow> js_error + real" where
  "speed_js v =
     (case js_lt v (8 / 10) of Inl e \<Rightarrow> Inl e
      | Inr b \<Rightarrow> if b then Inr 0
                 else (case v of Num x \<Rightarrow> Inr (toFixed2 x) | _ \<Rightarrow> Inl TypeError))"

text \<open>
  Lines 36--63 on the parsed body. The body is \<open>None\<close> when it is \<open>null\<close>, another falsy
  value, or a truthy value that is not an object (its \<open>ax\<close> is \<open>undefined\<close>). \<open>Inr None\<close> is
  the early \<open>return\<close> of line 36, \<open>Inl\<close> an exception thrown on the way to \<open>newData\<close>.
\<close>

definition normalize_js ::
  "json_object option \<Rightarrow> nat \<Rightarrow> js_error + json_object reading option" where
  "normalize_js data now =
     (case data of
        None \<Rightarrow> Inr None
      | Some d \<Rightarrow>
          if d ''ax'' = Undefined then Inr None
          else (case gForce_js d of Inl e \<Rightarrow> Inl e | Inr g \<Rightarrow>
                (case rawSpeed_js d of Inl e \<Rightarrow> Inl e | Inr v \<Rightarrow>
                 (case speed_js v of Inl e \<Rightarrow> Inl e | Inr speed \<Rightarrow>
                    Inr (Some \<lparr> raw = d, gForce = g, spd = speed,
                                 ride_mode = rideMode speed, timestamp = now \<rparr>)))))"

text \<open>The \<open>then\<close> callback of lines 35--81: it returns early, throws, or stores the reading.\<close>

definition then_handler ::
  "json_object option \<Rightarrow> nat \<Rightarrow> json_object app_state
     \<Rightarrow> js_error + json_object app_state" where
  "then_handler data now s =
     (case normalize_js data now of
        Inl e \<Rightarrow> Inl e
      | Inr None \<Rightarrow> Inr s
      | Inr (Some newData) \<Rightarrow> Inr (process_reading newData s))"

text \<open>
  The callback followed by the \<open>catch\<close> of line 82, which logs a warning and does nothing
  else: the state after one polled body.
\<close>

definition poll_sample ::
  "json_object option \<Rightarrow> nat \<Rightarrow> json_object app_state \<Rightarrow> json_object app_state" where
  "poll_sample data now s = (case then_handler data now s of Inl e \<Rightarrow> s | Inr s' \<Rightarrow> s')"

text \<open>A well-typed sample seen as a JSON object, on the five fields the handler reads.\<close>

definition js_of :: "real option \<Rightarrow> jsval" where
  "js_of v = (case v of None \<Rightarrow> Undefined | Some x \<Rightarrow> Num x)"

definition typed_view :: "json_object \<Rightarrow> raw_sample \<Rightarrow> bool" where
  "typed_view j d =
     (j ''ax'' = js_of (ax d) \<and> j ''ay'' = js_of (ay d) \<and> j ''az'' = js_of (az d) \<and>
      j ''gps_spd'' = js_of (gps_spd d) \<and> j ''mpu_spd'' = js_of (mpu_spd d))"


subsection \<open>Reference inputs and the specification's wording\<close>

text \<open>The JSON object \<open>{}\<close>: every field missing.\<close>

definition empty_sample :: raw_sample where
  "empty_sample =
     \<lparr> ax = None, ay = None, az = None, gps_spd = None, mpu_spd = None,
       lat = None, lon = None, tilt = None, posture = None \<rparr>"

text \<open>
  The specification's wording of the derived speed, for comparison with \<open>speed_of\<close>:
  the chosen source value is rounded to two decimals first, and the rounded value is
  snapped to 0 when it is below 0.8.
\<close>

definition spec_speedKmh :: "raw_sample \<Rightarrow> real" where
  "spec_speedKmh d =
     (let chosen =
            (case gps_spd d of
               Some g \<Rightarrow> if g > 0 then g
                         else (case mpu_spd d of Some m \<Rightarrow> if m > 0 then m else 0 | None \<Rightarrow> 0)
             | None \<Rightarrow> (case mpu_spd d of Some m \<Rightarrow> if m > 0 then m else 0 | None \<Rightarrow> 0));
          rounded = toFixed2 chosen
      in if rounded < 8 / 10 then 0 else rounded)"

text \<open>
  The specification's wording of the skip condition: the acceleration vector is entirely
  absent from the raw sample.
\<close>

definition spec_acceleration_absent :: "raw_sample \<Rightarrow> bool" where
  "spec_acceleration_absent d = (ax d = None \<and> ay d = None \<and> az d = None)"

section \<open>Properties\<close>

lemmas ctl_defs = onSample_def normalize_def process_reading_def triggerCrashSequence_def
  poll_closure_crashDetected_def initial_state_def tick_def countdown_updater_def
  clearInterval_def callEmergency_def cancelEmergency_def EMERGENCY_NUMBER_def run_def
  rawSpeed_def speed_of_def rideMode_def setHistory_def slice_last_def empty_sample_def Let_def

subsection \<open>Rounding and the jitter filter\<close>

lemma toFixed2_ge: "8 / 10 \<le> x \<Longrightarrow> 8 / 10 \<le> toFixed2 x"
proof -
  assume h: "8 / 10 \<le> x"
  have "(80::int) \<le> \<lfloor>x * 100 + 1 / 2\<rfloor>" using h by (simp add: le_floor_iff)
  then have "(80::real) \<le> of_int \<lfloor>x * 100 + 1 / 2\<rfloor>" by linarith
  then show ?thesis using h by (simp add: toFixed2_def)
qed

lemma toFixed2_near:
  assumes "0 \<le> x"
  shows "\<bar>toFixed2 x - x\<bar> \<le> 1 / 200"
proof -
  define y where "y = x * 100 + 1 / 2"
  define f :: real where "f = of_int \<lfloor>y\<rfloor>"
  define e where "e = toFixed2 x - x"
  have a: "f \<le> y" and b: "y < f + 1" unfolding f_def by linarith+
  have t: "toFixed2 x = f / 100" using assms by (simp add: toFixed2_def y_def f_def)
  have x: "x = (y - 1 / 2) / 100" by (simp add: y_def)
  have "e = (f - y + 1 / 2) / 100" unfolding e_def t by (subst x) (simp add: field_simps)
  then have "\<bar>e\<bar> \<le> 1 / 200" using a b by (simp add: abs_le_iff)
  then show ?thesis by (simp add: e_def)
qed

lemma toFixed2_grid: "\<exists>n::int. toFixed2 x = of_int n / 100"
  unfolding toFixed2_def by (metis minus_divide_left of_int_minus)

lemma speed_of_gap: "speed_of x = 0 \<or> 8 / 10 \<le> speed_of x"
  using toFixed2_ge[of x] by (auto simp: speed_of_def)

lemma normalize_spd_gap:
  "normalize data now = Some r \<Longrightarrow> spd r = 0 \<or> 8 / 10 \<le> spd r"
proof -
  assume n: "normalize data now = Some r"
  then obtain d where "data = Some d" by (cases data) (simp_all add: normalize_def)
  with n have "spd r = speed_of (rawSpeed d)"
    by (auto simp: normalize_def split: if_splits)
  then show ?thesis using speed_of_gap[of "rawSpeed d"] by simp
qed

text \<open>A sample with no sideways acceleration: the magnitude is that of the vertical part.\<close>

lemma gForce_of_vertical:
  "gForce_of \<lparr> ax = Some 0, ay = Some 0, az = Some z, gps_spd = g, mpu_spd = m,
       lat = la, lon = lo, tilt = t, posture = p \<rparr> = Some (\<bar>z\<bar> / (98 / 10))"
  by (simp add: gForce_of_def)


subsection \<open>Ride mode\<close>

text \<open>
  Claim C8. The ride mode is a function of the derived speed alone, with the thresholds
  1.7, 5.5 and 9.6 each belonging to the upper class: below 1.7 is Idle, from 1.7 up to
  but excluding 5.5 is Walking, from 5.5 up to but excluding 9.6 is Scooter, 9.6 and
  above is Motorcycle. At the boundary values: 1.69 is Idle, 1.7 is Walking, 5.5 is
  Scooter, 9.6 is Motorcycle. The mode stored in a reading is the mode of the speed
  stored in that reading.
\<close>

theorem rideMode_thresholds:
  "(rideMode v = Idle \<longleftrightarrow> v < 17 / 10) \<and>
   (rideMode v = Walking \<longleftrightarrow> 17 / 10 \<le> v \<and> v < 55 / 10) \<and>
   (rideMode v = Scooter \<longleftrightarrow> 55 / 10 \<le> v \<and> v < 96 / 10) \<and>
   (rideMode v = Motorcycle \<longleftrightarrow> 96 / 10 \<le> v) \<and>
   rideMode (169 / 100) = Idle \<and> rideMode (17 / 10) = Walking \<and>
   rideMode (55 / 10) = Scooter \<and> rideMode (96 / 10) = Motorcycle \<and>
   map_option ride_mode (normalize data now) =
     map_option (\<lambda>r. rideMode (spd r)) (normalize data now)"
  by (auto simp: rideMode_def normalize_def split: option.splits)

subsection \<open>History buffer\<close>

lemma length_setHistory: "length (setHistory prev x) = min (length prev) 1000 + 1"
  by (simp add: setHistory_def slice_last_def)

lemma set_setHistory: "set (setHistory prev x) \<subseteq> insert x (set prev)"
  using set_drop_subset by (fastforce simp: setHistory_def slice_last_def)

text \<open>Repeated appends keep the most recent 1001 entries, in insertion order.\<close>

lemma foldl_setHistory:
  "length h \<le> 1001 \<Longrightarrow> foldl setHistory h xs = slice_last 1001 (h @ xs)"
proof (induction xs arbitrary: h)
  case Nil
  then show ?case by (simp add: slice_last_def)
next
  case (Cons x xs)
  have l: "length (setHistory h x) \<le> 1001" by (simp add: length_setHistory)
  have e: "setHistory h x @ xs = drop (length h - 1000) (h @ x # xs)"
    by (simp add: setHistory_def slice_last_def)
  have "slice_last 1001 (setHistory h x @ xs) = slice_last 1001 (h @ x # xs)"
  proof (cases "length h \<le> 1000")
    case True
    then show ?thesis by (simp add: e)
  next
    case False
    with Cons.prems have "length h = 1001" by simp
    then show ?thesis unfolding e by (simp add: slice_last_def)
  qed
  with Cons.IH[OF l] show ?case by simp
qed

lemma history_triggerCrashSequence [simp]:
  "history (triggerCrashSequence c g s) = history s"
  by (simp add: triggerCrashSequence_def)

lemma history_process_reading: "history (process_reading r s) = setHistory (history s) r"
  by (simp add: process_reading_def Let_def split: option.splits)

lemma history_tick [simp]: "history (tick t s) = history s"
  by (simp add: tick_def countdown_updater_def callEmergency_def clearInterval_def
        split: option.splits)

lemma history_cancelEmergency [simp]: "history (cancelEmergency s) = history s"
  by (simp add: cancelEmergency_def clearInterval_def split: option.splits)

lemma history_callEmergency [simp]: "history (callEmergency s) = history s"
  by (simp add: callEmergency_def)

text \<open>The history after a run of samples that all carry \<open>ax\<close>.\<close>

lemma history_samples:
  assumes "ax d \<noteq> None"
  shows "history (foldl step s (map (Sample (Some d)) ns)) =
         foldl setHistory (history s) (map (\<lambda>n. the (normalize (Some d) n)) ns)"
proof (induction ns arbitrary: s)
  case Nil
  show ?case by simp
next
  case (Cons n ns)
  obtain r where r: "normalize (Some d) n = Some r"
    using assms by (auto simp: normalize_def)
  then have "history (step s (Sample (Some d) n)) = setHistory (history s) r"
    by (simp add: onSample_def history_process_reading)
  with r Cons.IH[of "step s (Sample (Some d) n)"] show ?case by simp
qed

text \<open>
  Claim C5. The claim bounds the buffer by 1000 readings after every append. Line 77
  keeps the last 1000 readings of the previous buffer and then adds the new one, so the
  buffer grows to 1001: after 1500 samples (stamped 0 to 1499) it holds 1001 readings,
  those stamped 499 to 1499, oldest first; and a buffer of 1000 entries loses none of
  them on the next append.
\<close>

theorem history_holds_1001:
  "length (history (run (map (Sample (Some (empty_sample\<lparr>ax := Some 0\<rparr>))) [0..<1500]))) = 1001 \<and>
   map timestamp (history (run (map (Sample (Some (empty_sample\<lparr>ax := Some 0\<rparr>))) [0..<1500])))
     = [499..<1500] \<and>
   length (setHistory [0..<1000] (1000::nat)) = 1001"
proof -
  let ?d = "empty_sample\<lparr>ax := Some 0\<rparr>"
  let ?f = "\<lambda>n. the (normalize (Some ?d) n)"
  have a: "ax ?d \<noteq> None" by simp
  have "history (run (map (Sample (Some ?d)) [0..<1500])) = foldl setHistory [] (map ?f [0..<1500])"
    unfolding run_def using history_samples[OF a, of initial_state "[0..<1500]"]
    by (simp add: initial_state_def)
  also have "\<dots> = slice_last 1001 (map ?f [0..<1500])"
    by (simp add: foldl_setHistory)
  also have "\<dots> = map ?f [499..<1500]"
    by (simp add: slice_last_def drop_map del: map_upt_Suc upt_Suc)
  finally have h: "history (run (map (Sample (Some ?d)) [0..<1500])) = map ?f [499..<1500]" .
  have t: "timestamp (?f n) = n" for n by (simp add: normalize_def)
  have m: "map timestamp (map ?f [499..<1500]) = [499..<1500]"
    unfolding map_map comp_def t by simp
  have s: "length (setHistory [0..<1000] (1000::nat)) = 1001"
    by (simp add: length_setHistory)
  have l: "length (map ?f [499..<1500]) = 1001" by (simp del: map_upt_Suc upt_Suc)
  from l m s show ?thesis unfolding h by (intro conjI)
qed

text \<open>
  Claim C9. Every reading held by the history, whatever samples, timer firings and
  button presses came before, has a speed that is exactly 0 or at least 0.8: no stored
  speed lies strictly between 0 and 0.8.
\<close>

lemma step_history_gap:
  assumes "\<forall>r\<in>set (history s). spd r = 0 \<or> 8 / 10 \<le> spd r"
  shows "\<forall>r\<in>set (history (step s e)). spd r = 0 \<or> 8 / 10 \<le> spd r"
proof (cases e)
  case (Sample data now)
  show ?thesis
  proof (cases "normalize data now")
    case None
    with Sample assms show ?thesis by (simp add: onSample_def)
  next
    case (Some nd)
    have "set (history (step s e)) \<subseteq> insert nd (set (history s))"
      using Sample Some set_setHistory by (simp add: onSample_def history_process_reading)
    moreover have "spd nd = 0 \<or> 8 / 10 \<le> spd nd" using Some by (rule normalize_spd_gap)
    ultimately show ?thesis using assms by blast
  qed
qed (use assms in simp_all)

lemma foldl_history_gap:
  "\<forall>r\<in>set (history s). spd r = 0 \<or> 8 / 10 \<le> spd r \<Longrightarrow>
   \<forall>r\<in>set (history (foldl step s es)). spd r = 0 \<or> 8 / 10 \<le> spd r"
proof (induction es arbitrary: s)
  case Nil
  then show ?case by simp
next
  case (Cons e es)
  from Cons.prems have "\<forall>r\<in>set (history (step s e)). spd r = 0 \<or> 8 / 10 \<le> spd r"
    by (rule step_history_gap)
  then show ?case using Cons.IH by simp
qed


theorem stored_speed_gap:
  "r \<in> set (history (run es)) \<Longrightarrow> spd r = 0 \<or> 8 / 10 \<le> spd r"
  using foldl_history_gap[of initial_state es] by (simp add: run_def initial_state_def)

text \<open>
  Witness for claim C9: after a sample with GPS speed 0.5 (stored as 0) and one with GPS
  speed 12.345 (stored as 12.35), both stored readings satisfy the property.
\<close>

theorem stored_speed_gap_witness:
  "hd (history (run [Sample (Some (empty_sample\<lparr>ax := Some 0, gps_spd := Some (1 / 2)\<rparr>)) 0,
                     Sample (Some (empty_sample\<lparr>ax := Some 0, gps_spd := Some (12345 / 1000)\<rparr>)) 500]))
     \<in> set (history (run [Sample (Some (empty_sample\<lparr>ax := Some 0, gps_spd := Some (1 / 2)\<rparr>)) 0,
                     Sample (Some (empty_sample\<lparr>ax := Some 0, gps_spd := Some (12345 / 1000)\<rparr>)) 500])) \<and>
   map spd (history (run [Sample (Some (empty_sample\<lparr>ax := Some 0, gps_spd := Some (1 / 2)\<rparr>)) 0,
                     Sample (Some (empty_sample\<lparr>ax := Some 0, gps_spd := Some (12345 / 1000)\<rparr>)) 500]))
     = [0, 1235 / 100] \<and>
   (spd (hd (history (run [Sample (Some (empty_sample\<lparr>ax := Some 0, gps_spd := Some (1 / 2)\<rparr>)) 0,
                     Sample (Some (empty_sample\<lparr>ax := Some 0, gps_spd := Some (12345 / 1000)\<rparr>)) 500]))) = 0
    \<or> 8 / 10 \<le> spd (hd (history (run [Sample (Some (empty_sample\<lparr>ax := Some 0, gps_spd := Some (1 / 2)\<rparr>)) 0,
                     Sample (Some (empty_sample\<lparr>ax := Some 0, gps_spd := Some (12345 / 1000)\<rparr>)) 500]))))"
  using stored_speed_gap
    [of "hd (history (run [Sample (Some (empty_sample\<lparr>ax := Some 0, gps_spd := Some (1 / 2)\<rparr>)) 0,
                     Sample (Some (empty_sample\<lparr>ax := Some 0, gps_spd := Some (12345 / 1000)\<rparr>)) 500]))"
        "[Sample (Some (empty_sample\<lparr>ax := Some 0, gps_spd := Some (1 / 2)\<rparr>)) 0,
                     Sample (Some (empty_sample\<lparr>ax := Some 0, gps_spd := Some (12345 / 1000)\<rparr>)) 500]"]
  by (simp add: ctl_defs gForce_of_def toFixed2_def)

subsection \<open>Speed derivation\<close>

text \<open>
  Counterexample for claim C7. The claim rounds first and snaps the rounded value. For a
  GPS speed of 0.796 the rounded value is 0.80, which is not below 0.8, so the claim
  gives 0.80; line 48 compares the unrounded 0.796 with 0.8 and stores 0.
\<close>

theorem speed_round_then_snap_counterexample:
  "map_option spd (normalize (Some (empty_sample\<lparr>ax := Some 0, gps_spd := Some (796 / 1000)\<rparr>)) 0)
     = Some 0 \<and>
   spec_speedKmh (empty_sample\<lparr>ax := Some 0, gps_spd := Some (796 / 1000)\<rparr>) = 8 / 10"
  by (simp add: normalize_def speed_of_def rawSpeed_def spec_speedKmh_def toFixed2_def
        empty_sample_def)

text \<open>
  Claim C7, amended. For every raw sample that is processed, the source value is the GPS
  speed if present and > 0 (whatever the inertial speed is), else the inertial speed if
  present and > 0, else 0. If the source value itself is below 0.8 the stored speed is
  0; otherwise the stored speed is the source value rounded to 2 decimals: a multiple of
  0.01 within 0.005 of it.
\<close>

theorem speedKmh_derivation:
  "normalize (Some d) now = Some r \<longrightarrow>
     (\<forall>g. gps_spd d = Some g \<and> 0 < g \<longrightarrow> rawSpeed d = g) \<and>
     (\<forall>m. (gps_spd d = None \<or> (\<exists>g. gps_spd d = Some g \<and> g \<le> 0)) \<and>
          mpu_spd d = Some m \<and> 0 < m \<longrightarrow> rawSpeed d = m) \<and>
     ((gps_spd d = None \<or> (\<exists>g. gps_spd d = Some g \<and> g \<le> 0)) \<and>
      (mpu_spd d = None \<or> (\<exists>m. mpu_spd d = Some m \<and> m \<le> 0)) \<longrightarrow> rawSpeed d = 0) \<and>
     (rawSpeed d < 8 / 10 \<longrightarrow> spd r = 0) \<and>
     (8 / 10 \<le> rawSpeed d \<longrightarrow>
        spd r = toFixed2 (rawSpeed d) \<and> (\<exists>n::int. spd r = of_int n / 100) \<and>
        \<bar>spd r - rawSpeed d\<bar> \<le> 1 / 200)"
proof
  assume n: "normalize (Some d) now = Some r"
  then have s: "spd r = speed_of (rawSpeed d)"
    by (auto simp: normalize_def split: if_splits)
  have p1: "\<forall>g. gps_spd d = Some g \<and> 0 < g \<longrightarrow> rawSpeed d = g"
    by (simp add: rawSpeed_def)
  have p2: "\<forall>m. (gps_spd d = None \<or> (\<exists>g. gps_spd d = Some g \<and> g \<le> 0)) \<and>
          mpu_spd d = Some m \<and> 0 < m \<longrightarrow> rawSpeed d = m"
    by (auto simp: rawSpeed_def)
  have p3: "(gps_spd d = None \<or> (\<exists>g. gps_spd d = Some g \<and> g \<le> 0)) \<and>
      (mpu_spd d = None \<or> (\<exists>m. mpu_spd d = Some m \<and> m \<le> 0)) \<longrightarrow> rawSpeed d = 0"
    by (auto simp: rawSpeed_def)
  have p4: "rawSpeed d < 8 / 10 \<longrightarrow> spd r = 0"
    by (simp add: s speed_of_def)
  have p5: "8 / 10 \<le> rawSpeed d \<longrightarrow>
        spd r = toFixed2 (rawSpeed d) \<and> (\<exists>n::int. spd r = of_int n / 100) \<and>
        \<bar>spd r - rawSpeed d\<bar> \<le> 1 / 200"
  proof
    assume h: "8 / 10 \<le> rawSpeed d"
    then have e: "spd r = toFixed2 (rawSpeed d)" by (simp add: s speed_of_def)
    moreover have "\<bar>toFixed2 (rawSpeed d) - rawSpeed d\<bar> \<le> 1 / 200"
      using h by (intro toFixed2_near) simp
    ultimately show "spd r = toFixed2 (rawSpeed d) \<and> (\<exists>n::int. spd r = of_int n / 100) \<and>
        \<bar>spd r - rawSpeed d\<bar> \<le> 1 / 200"
      using toFixed2_grid[of "rawSpeed d"] by simp
  qed
  from p1 p2 p3 p4 p5
  show "(\<forall>g. gps_spd d = Some g \<and> 0 < g \<longrightarrow> rawSpeed d = g) \<and>
     (\<forall>m. (gps_spd d = None \<or> (\<exists>g. gps_spd d = Some g \<and> g \<le> 0)) \<and>
          mpu_spd d = Some m \<and> 0 < m \<longrightarrow> rawSpeed d = m) \<and>
     ((gps_spd d = None \<or> (\<exists>g. gps_spd d = Some g \<and> g \<le> 0)) \<and>
      (mpu_spd d = None \<or> (\<exists>m. mpu_spd d = Some m \<and> m \<le> 0)) \<longrightarrow> rawSpeed d = 0) \<and>
     (rawSpeed d < 8 / 10 \<longrightarrow> spd r = 0) \<and>
     (8 / 10 \<le> rawSpeed d \<longrightarrow>
        spd r = toFixed2 (rawSpeed d) \<and> (\<exists>n::int. spd r = of_int n / 100) \<and>
        \<bar>spd r - rawSpeed d\<bar> \<le> 1 / 200)"
    by (intro conjI)
qed


text \<open>
  Witness for claim C7, amended: GPS speed 12.345 with inertial speed 50 is stored as
  12.35; with no GPS speed, inertial speed 0.5 is below 0.8 and is stored as 0.
\<close>

theorem speedKmh_derivation_witness:
  "normalize (Some (empty_sample\<lparr>ax := Some 0, gps_spd := Some (12345 / 1000), mpu_spd := Some 50\<rparr>)) 0
     = Some \<lparr> raw = empty_sample\<lparr>ax := Some 0, gps_spd := Some (12345 / 1000), mpu_spd := Some 50\<rparr>,
              gForce = None, spd = 1235 / 100, ride_mode = Motorcycle, timestamp = 0 \<rparr> \<and>
   rawSpeed (empty_sample\<lparr>ax := Some 0, gps_spd := Some (12345 / 1000), mpu_spd := Some 50\<rparr>)
     = 12345 / 1000 \<and>
   \<bar>1235 / 100 - rawSpeed (empty_sample\<lparr>ax := Some 0, gps_spd := Some (12345 / 1000),
        mpu_spd := Some 50\<rparr>)\<bar> \<le> 1 / 200 \<and>
   normalize (Some (empty_sample\<lparr>ax := Some 0, mpu_spd := Some (1 / 2)\<rparr>)) 7
     = Some \<lparr> raw = empty_sample\<lparr>ax := Some 0, mpu_spd := Some (1 / 2)\<rparr>,
              gForce = None, spd = 0, ride_mode = Idle, timestamp = 7 \<rparr> \<and>
   rawSpeed (empty_sample\<lparr>ax := Some 0, mpu_spd := Some (1 / 2)\<rparr>) = 1 / 2"
  using speedKmh_derivation
    [of "empty_sample\<lparr>ax := Some 0, gps_spd := Some (12345 / 1000), mpu_spd := Some 50\<rparr>" 0
        "\<lparr> raw = empty_sample\<lparr>ax := Some 0, gps_spd := Some (12345 / 1000), mpu_spd := Some 50\<rparr>,
           gForce = None, spd = 1235 / 100, ride_mode = Motorcycle, timestamp = 0 \<rparr>"]
    speedKmh_derivation
    [of "empty_sample\<lparr>ax := Some 0, mpu_spd := Some (1 / 2)\<rparr>" 7
        "\<lparr> raw = empty_sample\<lparr>ax := Some 0, mpu_spd := Some (1 / 2)\<rparr>,
           gForce = None, spd = 0, ride_mode = Idle, timestamp = 7 \<rparr>"]
  by (simp add: normalize_def gForce_of_def speed_of_def rawSpeed_def rideMode_def toFixed2_def
        empty_sample_def)

subsection \<open>The skip guard and malformed samples\<close>

lemmas js_defs = ToBoolean_def ToNumber_def js_gt_def js_lt_def gForce_js_def rawSpeed_js_def
  speed_js_def normalize_js_def then_handler_def poll_sample_def

text \<open>On a well-typed sample the handler on JSON computes the reading of \<open>normalize\<close>.\<close>

lemma normalize_js_typed:
  "typed_view j d \<Longrightarrow>
   normalize_js (Some j) now =
     Inr (map_option (\<lambda>r. \<lparr> raw = j, gForce = gForce r, spd = spd r, ride_mode = ride_mode r,
                              timestamp = timestamp r \<rparr>) (normalize (Some d) now))"
  by (auto simp: typed_view_def js_of_def js_defs normalize_def gForce_of_def rawSpeed_def
        speed_of_def Let_def split: option.splits)

lemma telemetry_process_reading: "telemetry (process_reading r s) = Some r"
  by (simp add: process_reading_def Let_def triggerCrashSequence_def split: option.splits)

lemma normalize_js_raw: "normalize_js (Some d) now = Inr (Some r) \<Longrightarrow> raw r = d"
  by (auto simp: normalize_js_def split: if_splits sum.splits)

lemma gForce_js_ok:
  "d ''ax'' \<noteq> Opaque \<Longrightarrow> d ''ay'' \<noteq> Opaque \<Longrightarrow> d ''az'' \<noteq> Opaque \<Longrightarrow>
   \<exists>g. gForce_js d = Inr g"
  by (auto simp: gForce_js_def ToNumber_def split: jsval.splits)

lemma speed_js_ok:
  assumes "d ''gps_spd'' = Undefined \<or> d ''gps_spd'' = Null \<or> (\<exists>x. d ''gps_spd'' = Num x)"
    and "d ''mpu_spd'' = Undefined \<or> d ''mpu_spd'' = Null \<or> (\<exists>x. d ''mpu_spd'' = Num x)"
  shows "\<exists>v sp. rawSpeed_js d = Inr v \<and> speed_js v = Inr sp"
  using assms
  by (auto simp: rawSpeed_js_def speed_js_def js_gt_def js_lt_def ToNumber_def ToBoolean_def
        Let_def)

lemma err_is_TypeError: "(e::js_error) = TypeError" by (cases e) simp

text \<open>
  When normalisation throws: an acceleration field that cannot be converted, a speed
  field whose comparison with 0 throws, or a selected speed value that is not a number
  and does not compare below 0.8.
\<close>

lemma gForce_js_throws_iff:
  "gForce_js d = Inl TypeError \<longleftrightarrow> d ''ax'' = Opaque \<or> d ''ay'' = Opaque \<or> d ''az'' = Opaque"
  by (cases "d ''ax''"; cases "d ''ay''"; cases "d ''az''") (simp_all add: gForce_js_def ToNumber_def)

lemma speed_js_throws_iff:
  "speed_js v = Inl TypeError \<longleftrightarrow> (\<forall>x. v \<noteq> Num x) \<and> js_lt v (8 / 10) \<noteq> Inr True"
  by (cases v) (auto simp: speed_js_def js_lt_def ToNumber_def split: option.splits)

lemma normalize_js_throws_iff:
  "normalize_js (Some d) now = Inl TypeError \<longleftrightarrow>
     d ''ax'' \<noteq> Undefined \<and>
     (d ''ax'' = Opaque \<or> d ''ay'' = Opaque \<or> d ''az'' = Opaque \<or>
      rawSpeed_js d = Inl TypeError \<or>
      (\<exists>v. rawSpeed_js d = Inr v \<and> (\<forall>x. v \<noteq> Num x) \<and> js_lt v (8 / 10) \<noteq> Inr True))"
proof (cases "d ''ax'' = Undefined")
  case True
  then show ?thesis by (simp add: normalize_js_def)
next
  case ax: False
  show ?thesis
  proof (cases "gForce_js d")
    case (Inl e)
    then have "gForce_js d = Inl TypeError" by (simp add: err_is_TypeError[of e])
    moreover from this have "d ''ax'' = Opaque \<or> d ''ay'' = Opaque \<or> d ''az'' = Opaque"
      by (simp add: gForce_js_throws_iff)
    ultimately show ?thesis using ax by (auto simp: normalize_js_def)
  next
    case g: (Inr g)
    then have ng: "\<not> (d ''ax'' = Opaque \<or> d ''ay'' = Opaque \<or> d ''az'' = Opaque)"
      using gForce_js_throws_iff[of d] by simp
    show ?thesis
    proof (cases "rawSpeed_js d")
      case (Inl e)
      then show ?thesis using ax g by (simp add: normalize_js_def err_is_TypeError[of e])
    next
      case v: (Inr v)
      show ?thesis
      proof (cases "speed_js v")
        case (Inl e)
        then have "speed_js v = Inl TypeError" by (simp add: err_is_TypeError[of e])
        then show ?thesis using ax g v speed_js_throws_iff[of v]
          by (simp add: normalize_js_def)
      next
        case (Inr sp)
        then show ?thesis using ax g v ng speed_js_throws_iff[of v]
          by (simp add: normalize_js_def)
      qed
    qed
  qed
qed

text \<open>
  Malformed samples: a string speed of 12.5 beside a 4.0 g acceleration throws at line
  48, so the sample is dropped and no countdown starts; a string speed of 0.5 is below
  0.8 and never reaches \<open>toFixed\<close>, so it is stored as 0.
\<close>

lemma string_speed_throws:
  "normalize_js (Some ((\<lambda>k. Undefined)(''ax'' := Num 0, ''ay'' := Num 0, ''az'' := Num (392 / 10),
       ''gps_spd'' := Str ''12.5'' (Some (125 / 10))))) now = Inl TypeError \<and>
   poll_sample (Some ((\<lambda>k. Undefined)(''ax'' := Num 0, ''ay'' := Num 0, ''az'' := Num (392 / 10),
       ''gps_spd'' := Str ''12.5'' (Some (125 / 10))))) now s = s"
  by (simp add: js_defs)

lemma small_string_speed_stored:
  "normalize_js (Some ((\<lambda>k. Undefined)(''ax'' := Num 0,
       ''gps_spd'' := Str ''0.5'' (Some (1 / 2))))) 7 =
     Inr (Some \<lparr> raw = (\<lambda>k. Undefined)(''ax'' := Num 0, ''gps_spd'' := Str ''0.5'' (Some (1 / 2))),
                  gForce = None, spd = 0, ride_mode = Idle, timestamp = 7 \<rparr>)"
  by (simp add: js_defs rideMode_def Let_def)

text \<open>
  Counterexample for claim C6. A sample that carries \<open>ay\<close> and \<open>az\<close> but no \<open>ax\<close> is
  skipped, although its acceleration vector is not entirely absent: the guard of line 36
  looks at \<open>ax\<close> only. The same holds for the sample as a JSON object.
\<close>

theorem skip_with_acceleration_counterexample:
  "normalize (Some (empty_sample\<lparr>ay := Some 1, az := Some 2\<rparr>)) 0 = None \<and>
   \<not> spec_acceleration_absent (empty_sample\<lparr>ay := Some 1, az := Some 2\<rparr>) \<and>
   normalize_js (Some ((\<lambda>k. Undefined)(''ay'' := Num 1, ''az'' := Num 2))) 0 = Inr None"
  by (simp add: normalize_def spec_acceleration_absent_def empty_sample_def normalize_js_def)

text \<open>
  Claim C6, amended. Normalisation skips (the early return) exactly when the parsed body
  is null, falsy or not an object, or its \<open>ax\<close> field is absent; a skipped sample leaves the
  whole state as it was (nothing is appended, no crash check is made) and raises nothing.
  A sample whose normalisation throws is dropped in the same way: the \<open>catch\<close> of line 82
  swallows the exception and the state is as it was. Every sample that yields a reading
  becomes the current telemetry and is appended to the history. A sample that carries
  \<open>ax\<close> yields a reading whenever its acceleration fields can be converted to numbers
  and its two speed fields are numbers, \<open>null\<close> or absent.
\<close>

theorem sample_skip_iff:
  "(normalize_js data now = Inr None \<longleftrightarrow>
      data = None \<or> (\<exists>d. data = Some d \<and> d ''ax'' = Undefined)) \<and>
   (normalize_js data now = Inr None \<longrightarrow>
      then_handler data now s = Inr s \<and> poll_sample data now s = s) \<and>
   (normalize_js data now = Inl TypeError \<longrightarrow> poll_sample data now s = s) \<and>
   (\<forall>r. normalize_js data now = Inr (Some r) \<longrightarrow>
      data = Some (raw r) \<and> then_handler data now s = Inr (poll_sample data now s) \<and>
      telemetry (poll_sample data now s) = Some r \<and>
      history (poll_sample data now s) = setHistory (history s) r) \<and>
   (\<forall>d. data = Some d \<and> d ''ax'' \<noteq> Undefined \<and>
        d ''ax'' \<noteq> Opaque \<and> d ''ay'' \<noteq> Opaque \<and> d ''az'' \<noteq> Opaque \<and>
        (d ''gps_spd'' = Undefined \<or> d ''gps_spd'' = Null \<or> (\<exists>x. d ''gps_spd'' = Num x)) \<and>
        (d ''mpu_spd'' = Undefined \<or> d ''mpu_spd'' = Null \<or> (\<exists>x. d ''mpu_spd'' = Num x)) \<longrightarrow>
      (\<exists>r. normalize_js data now = Inr (Some r)))"
proof (intro conjI)
  show "normalize_js data now = Inr None \<longleftrightarrow>
          data = None \<or> (\<exists>d. data = Some d \<and> d ''ax'' = Undefined)"
    by (auto simp: normalize_js_def split: option.splits sum.splits)
  show "normalize_js data now = Inr None \<longrightarrow>
          then_handler data now s = Inr s \<and> poll_sample data now s = s"
    by (simp add: then_handler_def poll_sample_def)
  show "normalize_js data now = Inl TypeError \<longrightarrow> poll_sample data now s = s"
    by (simp add: then_handler_def poll_sample_def)
  show "\<forall>r. normalize_js data now = Inr (Some r) \<longrightarrow>
      data = Some (raw r) \<and> then_handler data now s = Inr (poll_sample data now s) \<and>
      telemetry (poll_sample data now s) = Some r \<and>
      history (poll_sample data now s) = setHistory (history s) r"
  proof (intro allI impI)
    fix r
    assume n: "normalize_js data now = Inr (Some r)"
    then obtain d where d: "data = Some d"
      by (cases data) (simp_all add: normalize_js_def)
    with n have "raw r = d" by (simp add: normalize_js_raw)
    with d n show "data = Some (raw r) \<and> then_handler data now s = Inr (poll_sample data now s) \<and>
      telemetry (poll_sample data now s) = Some r \<and>
      history (poll_sample data now s) = setHistory (history s) r"
      by (simp add: then_handler_def poll_sample_def history_process_reading
            telemetry_process_reading)
  qed
  show "\<forall>d. data = Some d \<and> d ''ax'' \<noteq> Undefined \<and>
        d ''ax'' \<noteq> Opaque \<and> d ''ay'' \<noteq> Opaque \<and> d ''az'' \<noteq> Opaque \<and>
        (d ''gps_spd'' = Undefined \<or> d ''gps_spd'' = Null \<or> (\<exists>x. d ''gps_spd'' = Num x)) \<and>
        (d ''mpu_spd'' = Undefined \<or> d ''mpu_spd'' = Null \<or> (\<exists>x. d ''mpu_spd'' = Num x)) \<longrightarrow>
      (\<exists>r. normalize_js data now = Inr (Some r))"
  proof (intro allI impI)
    fix d
    assume h: "data = Some d \<and> d ''ax'' \<noteq> Undefined \<and>
        d ''ax'' \<noteq> Opaque \<and> d ''ay'' \<noteq> Opaque \<and> d ''az'' \<noteq> Opaque \<and>
        (d ''gps_spd'' = Undefined \<or> d ''gps_spd'' = Null \<or> (\<exists>x. d ''gps_spd'' = Num x)) \<and>
        (d ''mpu_spd'' = Undefined \<or> d ''mpu_spd'' = Null \<or> (\<exists>x. d ''mpu_spd'' = Num x))"
    from h obtain g where g: "gForce_js d = Inr g" using gForce_js_ok[of d] by blast
    from h obtain v sp where v: "rawSpeed_js d = Inr v" "speed_js v = Inr sp"
      using speed_js_ok[of d] by blast
    from h g v show "\<exists>r. normalize_js data now = Inr (Some r)"
      by (simp add: normalize_js_def)
  qed
qed

text \<open>
  Witness for claim C6, amended, from the initial state: the sample without \<open>ax\<close> is
  skipped; the sample with a string speed of 12.5 throws and is dropped; the sample
  \<open>{ax: null, ay: 0, az: 0}\<close> yields a reading with 0 g, which fills the history.
\<close>

theorem sample_skip_iff_witness:
  "normalize_js (Some ((\<lambda>k. Undefined)(''ay'' := Num 1, ''az'' := Num 2))) 0 = Inr None \<and>
   poll_sample (Some ((\<lambda>k. Undefined)(''ay'' := Num 1, ''az'' := Num 2))) 0 initial_state
     = initial_state \<and>
   normalize_js (Some ((\<lambda>k. Undefined)(''ax'' := Num 0, ''ay'' := Num 0, ''az'' := Num (392 / 10),
       ''gps_spd'' := Str ''12.5'' (Some (125 / 10))))) 0 = Inl TypeError \<and>
   poll_sample (Some ((\<lambda>k. Undefined)(''ax'' := Num 0, ''ay'' := Num 0, ''az'' := Num (392 / 10),
       ''gps_spd'' := Str ''12.5'' (Some (125 / 10))))) 0 initial_state = initial_state \<and>
   normalize_js (Some ((\<lambda>k. Undefined)(''ax'' := Null, ''ay'' := Num 0, ''az'' := Num 0))) 0
     = Inr (Some \<lparr> raw = (\<lambda>k. Undefined)(''ax'' := Null, ''ay'' := Num 0, ''az'' := Num 0),
                   gForce = Some 0, spd = 0, ride_mode = Idle, timestamp = 0 \<rparr>) \<and>
   history (poll_sample (Some ((\<lambda>k. Undefined)(''ax'' := Null, ''ay'' := Num 0, ''az'' := Num 0)))
              0 initial_state)
     = [\<lparr> raw = (\<lambda>k. Undefined)(''ax'' := Null, ''ay'' := Num 0, ''az'' := Num 0),
          gForce = Some 0, spd = 0, ride_mode = Idle, timestamp = 0 \<rparr>]"
  using sample_skip_iff
      [of "Some ((\<lambda>k. Undefined)(''ay'' := Num 1, ''az'' := Num 2))" 0 initial_state]
    sample_skip_iff
      [of "Some ((\<lambda>k. Undefined)(''ax'' := Num 0, ''ay'' := Num 0, ''az'' := Num (392 / 10),
             ''gps_spd'' := Str ''12.5'' (Some (125 / 10))))" 0 initial_state]
    sample_skip_iff
      [of "Some ((\<lambda>k. Undefined)(''ax'' := Null, ''ay'' := Num 0, ''az'' := Num 0))" 0
          initial_state]
  by (simp add: js_defs rideMode_def process_reading_def setHistory_def slice_last_def
        initial_state_def Let_def)

subsection \<open>Crash countdown\<close>

text \<open>
  A reading above 3.5 g always arms a countdown of 30 on a fresh timer, whatever the
  state is: the guard of the polling closure reads the flag of the first render.
\<close>

lemma crash_reading_arms_countdown:
  "gForce r = Some g \<Longrightarrow> g > 35 / 10 \<Longrightarrow>
   crashDetected (process_reading r s) \<and> countdown (process_reading r s) = 30 \<and>
   countdownRef (process_reading r s) = Some (next_timer s) \<and>
   timers (process_reading r s) = timers s @ [next_timer s]"
  by (simp add: process_reading_def triggerCrashSequence_def poll_closure_crashDetected_def
        initial_state_def Let_def)

text \<open>Had the guard read the live flag, a signal during a countdown would change nothing.\<close>

lemma guard_on_live_flag:
  "crashDetected s \<Longrightarrow> triggerCrashSequence (crashDetected s) g s = s"
  by (simp add: triggerCrashSequence_def)

text \<open>With only the referenced timer armed, Cancel silences every later firing.\<close>

lemma cancel_stops_single_timer:
  "countdownRef s = Some i \<Longrightarrow> set (timers s) \<subseteq> {i} \<Longrightarrow>
   timers (cancelEmergency s) = [] \<and> (\<forall>t. tick t (cancelEmergency s) = cancelEmergency s)"
proof -
  assume r: "countdownRef s = Some i" and t: "set (timers s) \<subseteq> {i}"
  have "removeAll i (timers s) = []"
    using t by (auto simp: removeAll_filter_not_eq filter_empty_conv)
  then show ?thesis using r by (simp add: cancelEmergency_def clearInterval_def tick_def)
qed

text \<open>
  Claim C3. A reading of 4.0 g (vertical acceleration 39.2) delivered to the idle
  component starts the countdown at 30, as claimed. One timer firing later the counter is
  29; the same reading delivered again is not ignored: the counter is back at 30 and a
  second timer is armed next to the first.
\<close>

theorem crash_while_active_restarts:
  "crashDetected (run [Sample (Some (empty_sample\<lparr>ax := Some 0, ay := Some 0, az := Some (392 / 10)\<rparr>)) 0]) \<and>
   countdown (run [Sample (Some (empty_sample\<lparr>ax := Some 0, ay := Some 0, az := Some (392 / 10)\<rparr>)) 0]) = 30 \<and>
   timers (run [Sample (Some (empty_sample\<lparr>ax := Some 0, ay := Some 0, az := Some (392 / 10)\<rparr>)) 0]) = [0] \<and>
   countdown (run [Sample (Some (empty_sample\<lparr>ax := Some 0, ay := Some 0, az := Some (392 / 10)\<rparr>)) 0,
                   Tick 0]) = 29 \<and>
   countdown (run [Sample (Some (empty_sample\<lparr>ax := Some 0, ay := Some 0, az := Some (392 / 10)\<rparr>)) 0,
                   Tick 0,
                   Sample (Some (empty_sample\<lparr>ax := Some 0, ay := Some 0, az := Some (392 / 10)\<rparr>)) 1000])
     = 30 \<and>
   timers (run [Sample (Some (empty_sample\<lparr>ax := Some 0, ay := Some 0, az := Some (392 / 10)\<rparr>)) 0,
                Tick 0,
                Sample (Some (empty_sample\<lparr>ax := Some 0, ay := Some 0, az := Some (392 / 10)\<rparr>)) 1000])
     = [0, 1]"
  by (simp add: ctl_defs gForce_of_vertical)

text \<open>
  Claim C1. Two readings of 4.0 g arrive half a second apart, then the user cancels.
  Cancel leaves the flag cleared and the counter at 0 with no call placed, but it disarms
  only the second timer; the first one is still armed, and its next firing places the
  call although the state stays idle.
\<close>

theorem tick_after_cancel_dials:
  "\<not> crashDetected (run [Sample (Some (empty_sample\<lparr>ax := Some 0, ay := Some 0, az := Some (392 / 10)\<rparr>)) 0,
        Sample (Some (empty_sample\<lparr>ax := Some 0, ay := Some 0, az := Some (392 / 10)\<rparr>)) 500,
        Cancel]) \<and>
   countdown (run [Sample (Some (empty_sample\<lparr>ax := Some 0, ay := Some 0, az := Some (392 / 10)\<rparr>)) 0,
        Sample (Some (empty_sample\<lparr>ax := Some 0, ay := Some 0, az := Some (392 / 10)\<rparr>)) 500,
        Cancel]) = 0 \<and>
   dialed (run [Sample (Some (empty_sample\<lparr>ax := Some 0, ay := Some 0, az := Some (392 / 10)\<rparr>)) 0,
        Sample (Some (empty_sample\<lparr>ax := Some 0, ay := Some 0, az := Some (392 / 10)\<rparr>)) 500,
        Cancel]) = [] \<and>
   timers (run [Sample (Some (empty_sample\<lparr>ax := Some 0, ay := Some 0, az := Some (392 / 10)\<rparr>)) 0,
        Sample (Some (empty_sample\<lparr>ax := Some 0, ay := Some 0, az := Some (392 / 10)\<rparr>)) 500,
        Cancel]) = [0] \<and>
   dialed (run [Sample (Some (empty_sample\<lparr>ax := Some 0, ay := Some 0, az := Some (392 / 10)\<rparr>)) 0,
        Sample (Some (empty_sample\<lparr>ax := Some 0, ay := Some 0, az := Some (392 / 10)\<rparr>)) 500,
        Cancel, Tick 0]) = [''tel:+911234567890'']"
  by (simp add: ctl_defs gForce_of_vertical)

text \<open>
  Counterexample for claim C2. After a reading of 4.0 g and 29 firings of the countdown
  timer the counter is 1 with the flag set; the 30th firing places one call and sets the
  counter to 0, but the crash-detected flag is still set.
\<close>

theorem expiry_keeps_flag_counterexample:
  "countdown (run (Sample (Some (empty_sample\<lparr>ax := Some 0, ay := Some 0, az := Some (392 / 10)\<rparr>)) 0
                   # replicate 29 (Tick 0))) = 1 \<and>
   countdown (run (Sample (Some (empty_sample\<lparr>ax := Some 0, ay := Some 0, az := Some (392 / 10)\<rparr>)) 0
                   # replicate 30 (Tick 0))) = 0 \<and>
   dialed (run (Sample (Some (empty_sample\<lparr>ax := Some 0, ay := Some 0, az := Some (392 / 10)\<rparr>)) 0
                # replicate 30 (Tick 0))) = [''tel:+911234567890''] \<and>
   crashDetected (run (Sample (Some (empty_sample\<lparr>ax := Some 0, ay := Some 0, az := Some (392 / 10)\<rparr>)) 0
                       # replicate 30 (Tick 0)))"
  by (simp add: ctl_defs gForce_of_vertical eval_nat_numeral)

text \<open>
  Claim C2, amended. From a countdown at 1 whose timer is the only one armed, the firing
  of that timer places exactly one call to the emergency number, sets the counter to 0
  and disarms the timer, so that no later firing changes anything. The crash-detected flag
  is not cleared by the expiry.
\<close>

theorem natural_expiry:
  "crashDetected s \<and> countdown s = 1 \<and> countdownRef s = Some tid \<and> timers s = [tid] \<longrightarrow>
     dialed (tick tid s) = dialed s @ [''tel:+911234567890''] \<and>
     countdown (tick tid s) = 0 \<and> timers (tick tid s) = [] \<and> crashDetected (tick tid s) \<and>
     (\<forall>t. tick t (tick tid s) = tick tid s)"
  by (simp add: tick_def countdown_updater_def callEmergency_def clearInterval_def
        EMERGENCY_NUMBER_def)

text \<open>
  Witness for claim C2, amended: the state reached by a reading of 4.0 g and 29 firings
  of timer 0.
\<close>

theorem natural_expiry_witness:
  "crashDetected (run (Sample (Some (empty_sample\<lparr>ax := Some 0, ay := Some 0, az := Some (392 / 10)\<rparr>)) 0
                       # replicate 29 (Tick 0))) \<and>
   countdown (run (Sample (Some (empty_sample\<lparr>ax := Some 0, ay := Some 0, az := Some (392 / 10)\<rparr>)) 0
                   # replicate 29 (Tick 0))) = 1 \<and>
   countdownRef (run (Sample (Some (empty_sample\<lparr>ax := Some 0, ay := Some 0, az := Some (392 / 10)\<rparr>)) 0
                      # replicate 29 (Tick 0))) = Some 0 \<and>
   timers (run (Sample (Some (empty_sample\<lparr>ax := Some 0, ay := Some 0, az := Some (392 / 10)\<rparr>)) 0
                # replicate 29 (Tick 0))) = [0] \<and>
   dialed (tick 0 (run (Sample (Some (empty_sample\<lparr>ax := Some 0, ay := Some 0, az := Some (392 / 10)\<rparr>)) 0
                        # replicate 29 (Tick 0)))) = [''tel:+911234567890''] \<and>
   timers (tick 0 (run (Sample (Some (empty_sample\<lparr>ax := Some 0, ay := Some 0, az := Some (392 / 10)\<rparr>)) 0
                        # replicate 29 (Tick 0)))) = []"
  using natural_expiry
    [of "run (Sample (Some (empty_sample\<lparr>ax := Some 0, ay := Some 0, az := Some (392 / 10)\<rparr>)) 0
              # replicate 29 (Tick 0))" 0]
  by (simp add: ctl_defs gForce_of_vertical eval_nat_numeral)


text \<open>
  Counterexample for claim C4. Call Now pressed during a countdown at 30 places the call
  but resets nothing: the flag is still set, the counter is still 30 and the timer is
  still armed.
\<close>

theorem call_now_no_reset_counterexample:
  "dialed (run [Sample (Some (empty_sample\<lparr>ax := Some 0, ay := Some 0, az := Some (392 / 10)\<rparr>)) 0,
                CallNow]) = [''tel:+911234567890''] \<and>
   crashDetected (run [Sample (Some (empty_sample\<lparr>ax := Some 0, ay := Some 0, az := Some (392 / 10)\<rparr>)) 0,
                       CallNow]) \<and>
   countdown (run [Sample (Some (empty_sample\<lparr>ax := Some 0, ay := Some 0, az := Some (392 / 10)\<rparr>)) 0,
                   CallNow]) = 30 \<and>
   timers (run [Sample (Some (empty_sample\<lparr>ax := Some 0, ay := Some 0, az := Some (392 / 10)\<rparr>)) 0,
                CallNow]) = [0]"
  by (simp add: ctl_defs gForce_of_vertical)

text \<open>
  Claim C4, amended. In every countdown state with counter n > 0, Call Now places one
  call, to the same target that the expiry of the countdown dials, and changes nothing
  else: flag, counter, timer reference and armed timers stay as they were, so for n > 1
  the next firing of an armed timer still counts down to n - 1.
\<close>

theorem call_now_effect:
  "crashDetected s \<and> 0 < countdown s \<longrightarrow>
     dialed (step s CallNow) = dialed s @ [''tel:+911234567890''] \<and>
     crashDetected (step s CallNow) \<and> countdown (step s CallNow) = countdown s \<and>
     timers (step s CallNow) = timers s \<and> countdownRef (step s CallNow) = countdownRef s \<and>
     history (step s CallNow) = history s \<and>
     (\<forall>tid. tid \<in> set (timers s) \<and> 1 < countdown s \<longrightarrow>
            countdown (step (step s CallNow) (Tick tid)) = countdown s - 1) \<and>
     (\<forall>s' tid. tid \<in> set (timers s') \<and> countdown s' \<le> 1 \<longrightarrow>
            dialed (step s' (Tick tid)) = dialed s' @ [''tel:+911234567890''])"
  by (simp add: tick_def countdown_updater_def callEmergency_def clearInterval_def
        EMERGENCY_NUMBER_def split: option.splits)

text \<open>
  Witness for claim C4, amended: the countdown state reached by a reading of 4.0 g.
\<close>

theorem call_now_effect_witness:
  "crashDetected (run [Sample (Some (empty_sample\<lparr>ax := Some 0, ay := Some 0, az := Some (392 / 10)\<rparr>)) 0]) \<and>
   0 < countdown (run [Sample (Some (empty_sample\<lparr>ax := Some 0, ay := Some 0, az := Some (392 / 10)\<rparr>)) 0]) \<and>
   0 \<in> set (timers (run [Sample (Some (empty_sample\<lparr>ax := Some 0, ay := Some 0, az := Some (392 / 10)\<rparr>)) 0])) \<and>
   dialed (step (run [Sample (Some (empty_sample\<lparr>ax := Some 0, ay := Some 0, az := Some (392 / 10)\<rparr>)) 0])
             CallNow) = [''tel:+911234567890''] \<and>
   countdown (step (step (run [Sample (Some (empty_sample\<lparr>ax := Some 0, ay := Some 0,
                az := Some (392 / 10)\<rparr>)) 0]) CallNow) (Tick 0)) = 29"
  using call_now_effect
    [of "run [Sample (Some (empty_sample\<lparr>ax := Some 0, ay := Some 0, az := Some (392 / 10)\<rparr>)) 0]"]
  by (simp add: ctl_defs gForce_of_vertical)

subsection \<open>Cancel\<close>

text \<open>
  While the flag is clear the counter is 0 and the referenced timer is not armed; every
  event keeps this.
\<close>

lemma step_idle_inv:
  assumes "\<not> crashDetected s \<longrightarrow>
             countdown s = 0 \<and> (\<forall>i. countdownRef s = Some i \<longrightarrow> i \<notin> set (timers s))"
  shows "\<not> crashDetected (step s e) \<longrightarrow>
           countdown (step s e) = 0 \<and>
           (\<forall>i. countdownRef (step s e) = Some i \<longrightarrow> i \<notin> set (timers (step s e)))"
proof (cases e)
  case (Sample data now)
  then show ?thesis using assms
    by (auto simp: onSample_def process_reading_def triggerCrashSequence_def Let_def
          poll_closure_crashDetected_def initial_state_def split: option.splits)
next
  case (Tick t)
  then show ?thesis using assms
    by (auto simp: tick_def countdown_updater_def callEmergency_def clearInterval_def
          split: option.splits)
next
  case Cancel
  then show ?thesis by (auto simp: cancelEmergency_def clearInterval_def split: option.splits)
next
  case CallNow
  then show ?thesis using assms by (auto simp: callEmergency_def)
qed

lemma foldl_idle_inv:
  "\<not> crashDetected s \<longrightarrow>
     countdown s = 0 \<and> (\<forall>i. countdownRef s = Some i \<longrightarrow> i \<notin> set (timers s)) \<Longrightarrow>
   \<not> crashDetected (foldl step s es) \<longrightarrow>
     countdown (foldl step s es) = 0 \<and>
     (\<forall>i. countdownRef (foldl step s es) = Some i \<longrightarrow> i \<notin> set (timers (foldl step s es)))"
proof (induction es arbitrary: s)
  case Nil
  then show ?case by simp
next
  case (Cons e es)
  show ?case using Cons.IH[OF step_idle_inv[OF Cons.prems]] by simp
qed

lemma run_idle_inv:
  "\<not> crashDetected (run es) \<Longrightarrow>
   countdown (run es) = 0 \<and>
   (\<forall>i. countdownRef (run es) = Some i \<longrightarrow> i \<notin> set (timers (run es)))"
  using foldl_idle_inv[of initial_state es] by (simp add: run_def initial_state_def)

text \<open>
  Claim C10. Cancel is idempotent in every state: a second Cancel changes nothing, and
  after Cancel the flag is clear and the counter is 0. In every state the component can
  reach with the flag clear, the counter is already 0 and Cancel leaves the whole state
  as it is. Cancel has no error result.
\<close>

theorem cancel_idempotent:
  "cancelEmergency (cancelEmergency s) = cancelEmergency s \<and>
   \<not> crashDetected (cancelEmergency s) \<and> countdown (cancelEmergency s) = 0 \<and>
   (\<not> crashDetected (run es) \<longrightarrow> countdown (run es) = 0 \<and> cancelEmergency (run es) = run es)"
proof -
  have a: "cancelEmergency (cancelEmergency s) = cancelEmergency s"
    by (simp add: cancelEmergency_def clearInterval_def split: option.splits)
  have b: "\<not> crashDetected (cancelEmergency s) \<and> countdown (cancelEmergency s) = 0"
    by (simp add: cancelEmergency_def)
  have c: "countdown (run es) = 0 \<and> cancelEmergency (run es) = run es"
    if "\<not> crashDetected (run es)"
  proof -
    from run_idle_inv[OF that] have z: "countdown (run es) = 0"
      and t: "\<forall>i. countdownRef (run es) = Some i \<longrightarrow> i \<notin> set (timers (run es))"
      by simp_all
    have "clearInterval (countdownRef (run es)) (run es) = run es"
      using t by (simp add: clearInterval_def split: option.splits)
    then show ?thesis using z that by (simp add: cancelEmergency_def)
  qed
  from a b c show ?thesis by blast
qed

text \<open>
  Witness for claim C10: the idle state reached by a reading of 4.0 g followed by Cancel;
  a further Cancel leaves its flag, counter, timers and call log as they are.
\<close>

theorem cancel_idempotent_witness:
  "\<not> crashDetected (run [Sample (Some (empty_sample\<lparr>ax := Some 0, ay := Some 0, az := Some (392 / 10)\<rparr>)) 0,
                          Cancel]) \<and>
   countdown (run [Sample (Some (empty_sample\<lparr>ax := Some 0, ay := Some 0, az := Some (392 / 10)\<rparr>)) 0,
                   Cancel]) = 0 \<and>
   cancelEmergency (run [Sample (Some (empty_sample\<lparr>ax := Some 0, ay := Some 0, az := Some (392 / 10)\<rparr>)) 0,
                         Cancel])
     = run [Sample (Some (empty_sample\<lparr>ax := Some 0, ay := Some 0, az := Some (392 / 10)\<rparr>)) 0, Cancel]"
  using cancel_idempotent
    [of initial_state
        "[Sample (Some (empty_sample\<lparr>ax := Some 0, ay := Some 0, az := Some (392 / 10)\<rparr>)) 0, Cancel]"]
  by (simp add: ctl_defs gForce_of_vertical)

end
